theory Spec2Isabelle
  imports Main
begin

section \<open>JavaScript values\<close>

text \<open>
  The values the client handles at run time: a caught \<^verbatim>\<open>error: unknown\<close>, a decoded
  response body (\<^verbatim>\<open>any\<close>), request bodies and query parameters. An object is the list
  of its properties (the first binding of a name is its value); \<open>JError\<close> is an object
  whose prototype chain holds \<^verbatim>\<open>Error.prototype\<close>, so that \<^verbatim>\<open>instanceof Error\<close> is a
  test on the constructor. Numbers are the integers (status codes and milliseconds are).
\<close>

datatype js_value =
    JUndefined
  | JNull
  | JBool bool
  | JNum int
  | JStr string
  | JArr "js_value list"
  | JObj "(string \<times> js_value) list"
  | JError "(string \<times> js_value) list"

text \<open>Truthiness, as \<^verbatim>\<open>if (v)\<close>, \<^verbatim>\<open>v && w\<close> and \<^verbatim>\<open>v || w\<close> test it.\<close>

fun truthy :: "js_value \<Rightarrow> bool" where
  "truthy JUndefined = False"
| "truthy JNull = False"
| "truthy (JBool b) = b"
| "truthy (JNum n) = (n \<noteq> 0)"
| "truthy (JStr s) = (s \<noteq> [])"
| "truthy (JArr xs) = True"
| "truthy (JObj ps) = True"
| "truthy (JError ps) = True"

fun nullish :: "js_value \<Rightarrow> bool" where
  "nullish JUndefined = True"
| "nullish JNull = True"
| "nullish v = False"

text \<open>
  \<open>props v k\<close> is the value of the property \<open>k\<close> of a value that is neither
  \<^verbatim>\<open>null\<close> nor \<^verbatim>\<open>undefined\<close>; a missing property reads as \<^verbatim>\<open>undefined\<close>. The names
  read by the client (\<^verbatim>\<open>response\<close>, \<^verbatim>\<open>request\<close>, \<^verbatim>\<open>message\<close>, \<^verbatim>\<open>data\<close>, \<^verbatim>\<open>status\<close>,
  \<^verbatim>\<open>error\<close>, \<^verbatim>\<open>code\<close>, \<^verbatim>\<open>details\<close>, \<^verbatim>\<open>isAxiosError\<close>) are no properties of a
  boolean, a number, a string or an array.
\<close>

fun props :: "js_value \<Rightarrow> string \<Rightarrow> js_value" where
  "props (JObj ps) k = (case map_of ps k of Some v \<Rightarrow> v | None \<Rightarrow> JUndefined)"
| "props (JError ps) k = (case map_of ps k of Some v \<Rightarrow> v | None \<Rightarrow> JUndefined)"
| "props v k = JUndefined"

text \<open>The value thrown by a property read on \<^verbatim>\<open>null\<close> or \<^verbatim>\<open>undefined\<close>.\<close>

definition TypeError :: js_value where
  "TypeError = JError [(''name'', JStr ''TypeError'')]"

text \<open>\<^verbatim>\<open>v.k\<close>: throws on \<^verbatim>\<open>null\<close> and \<^verbatim>\<open>undefined\<close> (\<open>Inl\<close> is the thrown value).\<close>

definition member :: "js_value \<Rightarrow> string \<Rightarrow> js_value + js_value" where
  "member v k = (if nullish v then Inl TypeError else Inr (props v k))"

text \<open>\<^verbatim>\<open>v?.k\<close>: \<^verbatim>\<open>undefined\<close> on \<^verbatim>\<open>null\<close> and \<^verbatim>\<open>undefined\<close>.\<close>

definition opt_member :: "js_value \<Rightarrow> string \<Rightarrow> js_value" where
  "opt_member v k = (if nullish v then JUndefined else props v k)"

text \<open>\<^verbatim>\<open>a || b\<close>, where \<open>b\<close> is evaluated (and may throw) only when \<open>a\<close> is falsy.\<close>

definition js_or :: "js_value \<Rightarrow> (js_value + js_value) \<Rightarrow> js_value + js_value" where
  "js_or a b = (if truthy a then Inr a else b)"

text \<open>Sequencing of evaluations that may throw.\<close>

definition and_then :: "('e + 'a) \<Rightarrow> ('a \<Rightarrow> 'e + 'b) \<Rightarrow> 'e + 'b" where
  "and_then m f = (case m of Inl e \<Rightarrow> Inl e | Inr x \<Rightarrow> f x)"

section \<open>The axios library, as the client uses it\<close>

text \<open>
  \<^verbatim>\<open>axios.isAxiosError(payload)\<close> is
  \<^verbatim>\<open>isObject(payload) && payload.isAxiosError === true\<close>, where an object is a value of
  type \<^verbatim>\<open>'object'\<close> other than \<^verbatim>\<open>null\<close>. The stand-in of the tests,
  \<^verbatim>\<open>err?.isAxiosError === true\<close>, is the same test on every value here.
\<close>

fun isObject :: "js_value \<Rightarrow> bool" where
  "isObject (JArr xs) = True"
| "isObject (JObj ps) = True"
| "isObject (JError ps) = True"
| "isObject v = False"

definition isAxiosError :: "js_value \<Rightarrow> bool" where
  "isAxiosError payload = (isObject payload \<and> props payload ''isAxiosError'' = JBool True)"

fun instanceofError :: "js_value \<Rightarrow> bool" where
  "instanceofError (JError ps) = True"
| "instanceofError v = False"

section \<open>errors/index.ts\<close>

text \<open>
  \<^verbatim>\<open>class ApiError extends Error\<close>. Each field holds the argument given to the
  constructor; \<open>message\<close> is the argument handed on to \<^verbatim>\<open>super(message)\<close>, which stores
  its string conversion (a string is stored as it is). A call with three arguments
  leaves \<open>details\<close> \<^verbatim>\<open>undefined\<close>.
\<close>

record ApiError =
  code :: js_value
  message :: js_value
  status :: js_value
  details :: js_value
  name :: string

definition new_ApiError :: "js_value \<Rightarrow> js_value \<Rightarrow> js_value \<Rightarrow> js_value \<Rightarrow> ApiError" where
  "new_ApiError c m s d = \<lparr>code = c, message = m, status = s, details = d, name = ''ApiError''\<rparr>"

text \<open>
  \<^verbatim>\<open>handleApiError(error)\<close>. The test of each \<^verbatim>\<open>if\<close> is evaluated first (the right
  operand of \<^verbatim>\<open>&&\<close> only when \<^verbatim>\<open>isAxiosError\<close> holds), then the branch.
\<close>

definition response_test :: "js_value \<Rightarrow> js_value + js_value" where
  "response_test error =
     (if isAxiosError error then member error ''response'' else Inr (JBool False))"

definition request_test :: "js_value \<Rightarrow> js_value + js_value" where
  "request_test error =
     (if isAxiosError error then member error ''request'' else Inr (JBool False))"

definition response_branch :: "js_value \<Rightarrow> js_value + ApiError" where
  "response_branch error =
     and_then (member error ''response'') (\<lambda>response.
     and_then (member response ''data'') (\<lambda>data.
     and_then (js_or (opt_member (opt_member data ''error'') ''code'')
                 (Inr (JStr ''UNKNOWN_ERROR''))) (\<lambda>c.
     and_then (js_or (opt_member (opt_member data ''error'') ''message'')
                 (member error ''message'')) (\<lambda>m0.
     and_then (js_or m0 (Inr (JStr ''Unknown error''))) (\<lambda>m.
     and_then (member error ''response'') (\<lambda>response'.
     and_then (member response' ''status'') (\<lambda>s.
       Inr (new_ApiError c m s (opt_member (opt_member data ''error'') ''details'')))))))))"

definition handleApiError :: "js_value \<Rightarrow> js_value + ApiError" where
  "handleApiError error =
     and_then (response_test error) (\<lambda>t1.
       if truthy t1 then response_branch error
       else and_then (request_test error) (\<lambda>t2.
         if truthy t2 then
           Inr (new_ApiError (JStr ''NETWORK_ERROR'')
                  (JStr ''Network error - unable to reach server'') (JNum 0) JUndefined)
         else if instanceofError error then
           and_then (member error ''message'') (\<lambda>m.
             Inr (new_ApiError (JStr ''CLIENT_ERROR'') m (JNum 0) JUndefined))
         else
           Inr (new_ApiError (JStr ''UNKNOWN_ERROR'')
                  (JStr ''An unknown error occurred'') (JNum 0) JUndefined)))"

text \<open>The tests of the first two branches and the binding of a caught value to a field
  of the response body's envelope \<^verbatim>\<open>{ error: { code, message, details } }\<close>, as values.\<close>

definition hasResponse :: "js_value \<Rightarrow> bool" where
  "hasResponse error = (isAxiosError error \<and> truthy (props error ''response''))"

definition hasRequest :: "js_value \<Rightarrow> bool" where
  "hasRequest error = (isAxiosError error \<and> truthy (props error ''request''))"



section \<open>client.ts\<close>

text \<open>
  \<^verbatim>\<open>interface ClientConfig\<close>. An optional field is an \<open>option\<close>. \<open>baseURL\<close> is declared
  a mandatory \<^verbatim>\<open>string\<close>; \<open>None\<close> is the property missing at run time, as a JavaScript
  caller or a cast can leave it. \<open>getToken\<close>, the caller's
  \<^verbatim>\<open>() => Promise<string | null>\<close>, is given by the outcome of each of its invocations,
  numbered from 0: \<open>Inr t\<close> when the promise resolves with \<open>t\<close> (\<open>None\<close> is \<^verbatim>\<open>null\<close>),
  \<open>Inl v\<close> when it rejects with \<open>v\<close>.
\<close>

record ClientConfig =
  baseURL :: "string option"
  getToken :: "(nat \<Rightarrow> js_value + string option) option"
  timeout :: "int option"

datatype verb = GET | POST | PUT | PATCH | DELETE

text \<open>
  Modelled from the spec: \<^verbatim>\<open>AxiosRequestConfig\<close>, the type of the per-request options, is
  declared by axios. The spec gives the options as query parameters, and every resource
  client passes either nothing or \<^verbatim>\<open>{ params }\<close>.
\<close>

record AxiosRequestConfig =
  params :: js_value

text \<open>
  The request configuration that the request interceptors see and the adapter
  transmits: the defaults of the instance, the verb, the URL, the body and the options.
\<close>

record request =
  req_baseURL :: "string option"
  req_timeout :: int
  req_headers :: "string \<rightharpoonup> string"
  req_method :: verb
  req_url :: string
  req_data :: js_value
  req_params :: js_value

record AxiosResponse =
  data :: js_value
  response_status :: int

text \<open>
  What a call changes outside the client: how often the token-getter has been invoked,
  and the requests handed to the adapter, oldest first.
\<close>

record world =
  token_calls :: nat
  sent :: "request list"

text \<open>What a rejected promise of the client carries.\<close>

datatype thrown = Thrown js_value | ThrownApiError ApiError

record CreateAxiosDefaults =
  d_baseURL :: "string option"
  d_timeout :: int
  d_headers :: "string \<rightharpoonup> string"

text \<open>
  An axios instance: its defaults, the adapter (the network: for a request, the error
  it rejects with or the response it resolves with), the request interceptors in the
  order axios runs them, and the response interceptor (the constructor registers one).
\<close>

record AxiosInstance =
  defaults :: CreateAxiosDefaults
  adapter :: "request \<Rightarrow> js_value + AxiosResponse"
  request_interceptors :: "(request \<Rightarrow> world \<Rightarrow> (js_value + request) \<times> world) list"
  on_fulfilled :: "AxiosResponse \<Rightarrow> AxiosResponse"
  on_rejected :: "js_value \<Rightarrow> thrown + AxiosResponse"

definition axios_create ::
  "(request \<Rightarrow> js_value + AxiosResponse) \<Rightarrow> CreateAxiosDefaults \<Rightarrow> AxiosInstance" where
  "axios_create net config =
     \<lparr>defaults = config, adapter = net, request_interceptors = [],
      on_fulfilled = (\<lambda>response. response), on_rejected = (\<lambda>error. Inl (Thrown error))\<rparr>"

text \<open>\<^verbatim>\<open>interceptors.request.use\<close>: axios runs the interceptor registered last first.\<close>

definition interceptors_request_use ::
  "AxiosInstance \<Rightarrow> (request \<Rightarrow> world \<Rightarrow> (js_value + request) \<times> world) \<Rightarrow> AxiosInstance" where
  "interceptors_request_use inst f =
     inst\<lparr>request_interceptors := f # request_interceptors inst\<rparr>"

text \<open>\<^verbatim>\<open>interceptors.response.use\<close>, on an instance that has no response interceptor
  yet.\<close>

definition interceptors_response_use ::
  "AxiosInstance \<Rightarrow> (AxiosResponse \<Rightarrow> AxiosResponse) \<Rightarrow> (js_value \<Rightarrow> thrown + AxiosResponse)
     \<Rightarrow> AxiosInstance" where
  "interceptors_response_use inst f r = inst\<lparr>on_fulfilled := f, on_rejected := r\<rparr>"

text \<open>
  The promise chain of a request: each request interceptor in turn (a rejection skips
  the interceptors after it and the adapter), the adapter, the response interceptor,
  whose error handler also gets the rejection of a request interceptor. These are the
  hooks of the spec: one before every outbound request, one on the response or failure.
\<close>

fun run_request_interceptors ::
  "(request \<Rightarrow> world \<Rightarrow> (js_value + request) \<times> world) list \<Rightarrow> js_value + request \<Rightarrow> world
     \<Rightarrow> (js_value + request) \<times> world" where
  "run_request_interceptors [] r w = (r, w)"
| "run_request_interceptors (f # fs) (Inl e) w = (Inl e, w)"
| "run_request_interceptors (f # fs) (Inr c) w =
     (case f c w of (r, w') \<Rightarrow> run_request_interceptors fs r w')"

text \<open>The configuration of one request, before the interceptors: the defaults of the
  instance under the verb, the URL, the body and the options of the call.\<close>

definition mergeConfig ::
  "AxiosInstance \<Rightarrow> verb \<Rightarrow> string \<Rightarrow> js_value \<Rightarrow> AxiosRequestConfig option \<Rightarrow> request" where
  "mergeConfig inst m u d config =
     \<lparr>req_baseURL = d_baseURL (defaults inst),
      req_timeout = d_timeout (defaults inst),
      req_headers = d_headers (defaults inst),
      req_method = m, req_url = u, req_data = d,
      req_params = (case config of None \<Rightarrow> JUndefined | Some c \<Rightarrow> params c)\<rparr>"

definition run_response_interceptor ::
  "AxiosInstance \<Rightarrow> js_value + AxiosResponse \<Rightarrow> thrown + AxiosResponse" where
  "run_response_interceptor inst r =
     (case r of
        Inl e \<Rightarrow> on_rejected inst e
      | Inr response \<Rightarrow> Inr (on_fulfilled inst response))"

definition axios_request ::
  "AxiosInstance \<Rightarrow> verb \<Rightarrow> string \<Rightarrow> js_value \<Rightarrow> AxiosRequestConfig option \<Rightarrow> world
     \<Rightarrow> (thrown + AxiosResponse) \<times> world" where
  "axios_request inst m u d config w =
     (case run_request_interceptors (request_interceptors inst)
             (Inr (mergeConfig inst m u d config)) w of
        (Inl e, w1) \<Rightarrow> (run_response_interceptor inst (Inl e), w1)
      | (Inr c, w1) \<Rightarrow>
          (run_response_interceptor inst (adapter inst c), w1\<lparr>sent := sent w1 @ [c]\<rparr>))"

text \<open>\<^verbatim>\<open>class BaseClient\<close>: its one field is the axios instance.\<close>

record BaseClient =
  http :: AxiosInstance

text \<open>The request interceptor that the constructor registers when \<^verbatim>\<open>config.getToken\<close>
  is there: \<^verbatim>\<open>const token = await getToken(); if (token) { ... } return reqConfig\<close>.\<close>

definition auth_interceptor ::
  "(nat \<Rightarrow> js_value + string option) \<Rightarrow> request \<Rightarrow> world \<Rightarrow> (js_value + request) \<times> world" where
  "auth_interceptor getToken' reqConfig w =
     (case getToken' (token_calls w) of
        Inl e \<Rightarrow> Inl e
      | Inr None \<Rightarrow> Inr reqConfig
      | Inr (Some token) \<Rightarrow>
          if token \<noteq> [] then
            Inr (reqConfig\<lparr>req_headers :=
                   (req_headers reqConfig)(''Authorization'' \<mapsto> ''Bearer '' @ token)\<rparr>)
          else Inr reqConfig,
      w\<lparr>token_calls := Suc (token_calls w)\<rparr>)"

text \<open>The error handler of the response interceptor:
  \<^verbatim>\<open>(error) => { throw handleApiError(error); }\<close>.\<close>

definition transform_errors :: "js_value \<Rightarrow> thrown + AxiosResponse" where
  "transform_errors error =
     (case handleApiError error of Inl t \<Rightarrow> Inl (Thrown t) | Inr e \<Rightarrow> Inl (ThrownApiError e))"

text \<open>The constructor; \<^verbatim>\<open>config.timeout || 10000\<close> takes the default for every falsy
  timeout.\<close>

definition BaseClient_constructor ::
  "(request \<Rightarrow> js_value + AxiosResponse) \<Rightarrow> ClientConfig \<Rightarrow> BaseClient" where
  "BaseClient_constructor net config =
     (let http0 = axios_create net
            \<lparr>d_baseURL = baseURL config,
             d_timeout = (case timeout config of
                            None \<Rightarrow> 10000
                          | Some t \<Rightarrow> if t \<noteq> 0 then t else 10000),
             d_headers = [''Content-Type'' \<mapsto> ''application/json'']\<rparr>;
          http1 = (case getToken config of
                     Some getToken' \<Rightarrow> interceptors_request_use http0 (auth_interceptor getToken')
                   | None \<Rightarrow> http0)
      in \<lparr>http = interceptors_response_use http1 (\<lambda>response. response) transform_errors\<rparr>)"


text \<open>\<^verbatim>\<open>const response = await ...; return response.data\<close>\<close>

definition response_data ::
  "(thrown + AxiosResponse) \<times> world \<Rightarrow> (thrown + js_value) \<times> world" where
  "response_data r =
     (case r of (Inl e, w) \<Rightarrow> (Inl e, w) | (Inr response, w) \<Rightarrow> (Inr (data response), w))"

definition get ::
  "BaseClient \<Rightarrow> string \<Rightarrow> AxiosRequestConfig option \<Rightarrow> world \<Rightarrow> (thrown + js_value) \<times> world" where
  "get this url config w = response_data (axios_request (http this) GET url JUndefined config w)"

definition post ::
  "BaseClient \<Rightarrow> string \<Rightarrow> js_value \<Rightarrow> AxiosRequestConfig option \<Rightarrow> world
     \<Rightarrow> (thrown + js_value) \<times> world" where
  "post this url d config w = response_data (axios_request (http this) POST url d config w)"

definition put ::
  "BaseClient \<Rightarrow> string \<Rightarrow> js_value \<Rightarrow> AxiosRequestConfig option \<Rightarrow> world
     \<Rightarrow> (thrown + js_value) \<times> world" where
  "put this url d config w = response_data (axios_request (http this) PUT url d config w)"

definition patch ::
  "BaseClient \<Rightarrow> string \<Rightarrow> js_value \<Rightarrow> AxiosRequestConfig option \<Rightarrow> world
     \<Rightarrow> (thrown + js_value) \<times> world" where
  "patch this url d config w = response_data (axios_request (http this) PATCH url d config w)"

definition delete ::
  "BaseClient \<Rightarrow> string \<Rightarrow> AxiosRequestConfig option \<Rightarrow> world \<Rightarrow> (thrown + js_value) \<times> world" where
  "delete this url config w =
     response_data (axios_request (http this) DELETE url JUndefined config w)"

text \<open>A call of one of the five verb operations, and its execution.\<close>

datatype call =
    Get string "AxiosRequestConfig option"
  | Post string js_value "AxiosRequestConfig option"
  | Put string js_value "AxiosRequestConfig option"
  | Patch string js_value "AxiosRequestConfig option"
  | Delete string "AxiosRequestConfig option"

fun perform :: "BaseClient \<Rightarrow> call \<Rightarrow> world \<Rightarrow> (thrown + js_value) \<times> world" where
  "perform this (Get url config) w = get this url config w"
| "perform this (Post url d config) w = post this url d config w"
| "perform this (Put url d config) w = put this url d config w"
| "perform this (Patch url d config) w = patch this url d config w"
| "perform this (Delete url config) w = delete this url config w"

fun call_verb :: "call \<Rightarrow> verb" where
  "call_verb (Get url config) = GET"
| "call_verb (Post url d config) = POST"
| "call_verb (Put url d config) = PUT"
| "call_verb (Patch url d config) = PATCH"
| "call_verb (Delete url config) = DELETE"

fun call_url :: "call \<Rightarrow> string" where
  "call_url (Get url config) = url"
| "call_url (Post url d config) = url"
| "call_url (Put url d config) = url"
| "call_url (Patch url d config) = url"
| "call_url (Delete url config) = url"

fun call_config :: "call \<Rightarrow> AxiosRequestConfig option" where
  "call_config (Get url config) = config"
| "call_config (Post url d config) = config"
| "call_config (Put url d config) = config"
| "call_config (Patch url d config) = config"
| "call_config (Delete url config) = config"

text \<open>The body of a call; \<^verbatim>\<open>get\<close> and \<^verbatim>\<open>delete\<close> take none.\<close>

fun call_data :: "call \<Rightarrow> js_value" where
  "call_data (Get url config) = JUndefined"
| "call_data (Post url d config) = d"
| "call_data (Put url d config) = d"
| "call_data (Patch url d config) = d"
| "call_data (Delete url config) = JUndefined"

section \<open>services/notifications.ts\<close>

text \<open>\<^verbatim>\<open>NotificationClient.markAsRead(id?: string)\<close>; \<open>None\<close> is a call without \<open>id\<close>.\<close>

definition markAsRead ::
  "BaseClient \<Rightarrow> string option \<Rightarrow> world \<Rightarrow> (thrown + js_value) \<times> world" where
  "markAsRead this id' w =
     (case id' of
        Some i \<Rightarrow>
          if i \<noteq> [] then patch this (''/notifications/'' @ i @ ''/read'') JUndefined None w
          else patch this ''/notifications/read'' JUndefined None w
      | None \<Rightarrow> patch this ''/notifications/read'' JUndefined None w)"


section \<open>Example inputs\<close>

text \<open>The \<^verbatim>\<open>Authorization\<close> header of a request.\<close>

definition authorization :: "request \<Rightarrow> string option" where
  "authorization req = req_headers req ''Authorization''"

text \<open>A network on which every request is answered with status 200 and an empty object.\<close>

definition net_ok :: "request \<Rightarrow> js_value + AxiosResponse" where
  "net_ok req = Inr \<lparr>data = JObj [], response_status = 200\<rparr>"

text \<open>Token-getters: one that resolves with \<^verbatim>\<open>'my-token'\<close>, one with the empty string.\<close>

definition my_token :: "nat \<Rightarrow> js_value + string option" where
  "my_token k = Inr (Some ''my-token'')"

definition empty_token :: "nat \<Rightarrow> js_value + string option" where
  "empty_token k = Inr (Some [])"

definition w0 :: world where
  "w0 = \<lparr>token_calls = 0, sent = []\<rparr>"




text \<open>The error of a request that ran into the timeout: a request, no response.\<close>

definition timeout_error :: js_value where
  "timeout_error =
     JError [(''isAxiosError'', JBool True),
             (''message'', JStr ''timeout of 10000ms exceeded''),
             (''code'', JStr ''ECONNABORTED''),
             (''request'', JObj [])]"

text \<open>Configurations: one without a token-getter, one around a given token-getter.\<close>

definition no_getter_config :: ClientConfig where
  "no_getter_config =
     \<lparr>baseURL = Some ''https://api.test.com'', getToken = None, timeout = None\<rparr>"

definition token_config :: "(nat \<Rightarrow> js_value + string option) \<Rightarrow> ClientConfig" where
  "token_config g =
     \<lparr>baseURL = Some ''https://api.test.com'', getToken = Some g, timeout = None\<rparr>"

section \<open>Properties of the error normalisation\<close>

lemma isAxiosError_not_nullish: "isAxiosError e \<Longrightarrow> \<not> nullish e"
  by (cases e) (simp_all add: isAxiosError_def)


lemma member_axios: "isAxiosError e \<Longrightarrow> member e k = Inr (props e k)"
  by (simp add: member_def isAxiosError_not_nullish)





lemma handleApiError_request:
  assumes "\<not> hasResponse e" "hasRequest e"
  shows "handleApiError e =
     Inr (new_ApiError (JStr ''NETWORK_ERROR'')
            (JStr ''Network error - unable to reach server'') (JNum 0) JUndefined)"
  using assms
  by (simp add: handleApiError_def response_test_def request_test_def hasResponse_def
      hasRequest_def and_then_def member_axios)









text \<open>
  C5. A caught axios failure with a request and no response (no connection, or the
  timeout ran out) is normalised to the code \<^verbatim>\<open>NETWORK_ERROR\<close>, the status 0, the fixed
  message \<^verbatim>\<open>Network error - unable to reach server\<close> and no details.
\<close>

theorem no_response_is_network_error:
  assumes "isAxiosError e" "\<not> truthy (props e ''response'')" "truthy (props e ''request'')"
  shows "handleApiError e =
     Inr (new_ApiError (JStr ''NETWORK_ERROR'')
            (JStr ''Network error - unable to reach server'') (JNum 0) JUndefined)"
  using assms by (simp add: handleApiError_request hasResponse_def hasRequest_def)

theorem no_response_is_network_error_witness:
  "isAxiosError timeout_error \<and> \<not> truthy (props timeout_error ''response'') \<and>
   truthy (props timeout_error ''request'') \<and>
   handleApiError timeout_error =
     Inr \<lparr>code = JStr ''NETWORK_ERROR'',
          message = JStr ''Network error - unable to reach server'',
          status = JNum 0, details = JUndefined, name = ''ApiError''\<rparr>"
proof -
  have h1: "isAxiosError timeout_error"
    by (simp add: timeout_error_def isAxiosError_def)
  have h2: "\<not> truthy (props timeout_error ''response'')"
    by (simp add: timeout_error_def)
  have h3: "truthy (props timeout_error ''request'')"
    by (simp add: timeout_error_def)
  show ?thesis
    using h1 h2 h3 no_response_is_network_error [OF h1 h2 h3]
    by (simp add: new_ApiError_def)
qed



section \<open>Properties of the pipeline\<close>


lemma http_constructor:
  "http (BaseClient_constructor net config) =
     \<lparr>defaults = \<lparr>d_baseURL = baseURL config,
                  d_timeout = (case timeout config of
                                 None \<Rightarrow> 10000
                               | Some t \<Rightarrow> if t \<noteq> 0 then t else 10000),
                  d_headers = [''Content-Type'' \<mapsto> ''application/json'']\<rparr>,
      adapter = net,
      request_interceptors =
        (case getToken config of Some g \<Rightarrow> [auth_interceptor g] | None \<Rightarrow> []),
      on_fulfilled = (\<lambda>response. response),
      on_rejected = transform_errors\<rparr>"
  by (simp add: BaseClient_constructor_def axios_create_def interceptors_request_use_def
      interceptors_response_use_def split: option.splits)

lemma perform_eq:
  "perform this c w =
     response_data (axios_request (http this) (call_verb c) (call_url c) (call_data c)
       (call_config c) w)"
  by (cases c) (simp_all add: get_def post_def put_def patch_def delete_def)

text \<open>The request of a call, before the interceptors.\<close>

lemma mergeConfig_constructor:
  "mergeConfig (http (BaseClient_constructor net config)) m u d opts =
     \<lparr>req_baseURL = baseURL config,
      req_timeout = (case timeout config of
                       None \<Rightarrow> 10000
                     | Some t \<Rightarrow> if t \<noteq> 0 then t else 10000),
      req_headers = [''Content-Type'' \<mapsto> ''application/json''],
      req_method = m, req_url = u, req_data = d,
      req_params = (case opts of None \<Rightarrow> JUndefined | Some c \<Rightarrow> params c)\<rparr>"
  by (simp add: mergeConfig_def http_constructor)



lemma perform_no_getter:
  assumes "getToken config = None"
  shows "perform (BaseClient_constructor net config) c w =
     response_data
       (run_response_interceptor (http (BaseClient_constructor net config))
          (net (mergeConfig (http (BaseClient_constructor net config))
                  (call_verb c) (call_url c) (call_data c) (call_config c))),
        w\<lparr>sent := sent w @ [mergeConfig (http (BaseClient_constructor net config))
                  (call_verb c) (call_url c) (call_data c) (call_config c)]\<rparr>)"
  using assms
  by (simp add: perform_eq axios_request_def http_constructor)

lemma perform_getter_rejects:
  assumes "getToken config = Some g" "g (token_calls w) = Inl e"
  shows "perform (BaseClient_constructor net config) c w =
     response_data
       (run_response_interceptor (http (BaseClient_constructor net config)) (Inl e),
        w\<lparr>token_calls := Suc (token_calls w)\<rparr>)"
  using assms
  by (simp add: perform_eq axios_request_def http_constructor auth_interceptor_def)

lemma perform_getter_no_token:
  assumes "getToken config = Some g"
    and "g (token_calls w) = Inr None \<or> g (token_calls w) = Inr (Some [])"
  shows "perform (BaseClient_constructor net config) c w =
     response_data
       (run_response_interceptor (http (BaseClient_constructor net config))
          (net (mergeConfig (http (BaseClient_constructor net config))
                  (call_verb c) (call_url c) (call_data c) (call_config c))),
        w\<lparr>token_calls := Suc (token_calls w),
          sent := sent w @ [mergeConfig (http (BaseClient_constructor net config))
                  (call_verb c) (call_url c) (call_data c) (call_config c)]\<rparr>)"
  using assms
  by (auto simp: perform_eq axios_request_def http_constructor auth_interceptor_def)

lemma perform_getter_token:
  assumes "getToken config = Some g" "g (token_calls w) = Inr (Some t)" "t \<noteq> []"
  shows "perform (BaseClient_constructor net config) c w =
     response_data
       (run_response_interceptor (http (BaseClient_constructor net config))
          (net ((mergeConfig (http (BaseClient_constructor net config))
                  (call_verb c) (call_url c) (call_data c) (call_config c))
                \<lparr>req_headers := [''Content-Type'' \<mapsto> ''application/json'',
                                  ''Authorization'' \<mapsto> ''Bearer '' @ t]\<rparr>)),
        w\<lparr>token_calls := Suc (token_calls w),
          sent := sent w @ [(mergeConfig (http (BaseClient_constructor net config))
                  (call_verb c) (call_url c) (call_data c) (call_config c))
                \<lparr>req_headers := [''Content-Type'' \<mapsto> ''application/json'',
                                  ''Authorization'' \<mapsto> ''Bearer '' @ t]\<rparr>]\<rparr>)"
  using assms
  by (simp add: perform_eq axios_request_def http_constructor auth_interceptor_def
      mergeConfig_def)

lemma perform_trace:
  "(\<exists>req tc. perform (BaseClient_constructor net config) c w =
       response_data
         (run_response_interceptor (http (BaseClient_constructor net config)) (net req),
          w\<lparr>token_calls := tc, sent := sent w @ [req]\<rparr>) \<and>
       req_method req = call_verb c \<and> req_url req = call_url c \<and>
       req_data req = call_data c \<and>
       req_params req = (case call_config c of None \<Rightarrow> JUndefined | Some c' \<Rightarrow> params c') \<and>
       req_timeout req = d_timeout (defaults (http (BaseClient_constructor net config))) \<and>
       req_baseURL req = baseURL config) \<or>
   (\<exists>e. perform (BaseClient_constructor net config) c w =
       response_data
         (run_response_interceptor (http (BaseClient_constructor net config)) (Inl e),
          w\<lparr>token_calls := Suc (token_calls w)\<rparr>))"
proof -
  let ?client = "BaseClient_constructor net config"
  let ?req = "mergeConfig (http ?client) (call_verb c) (call_url c) (call_data c) (call_config c)"
  show ?thesis
  proof (cases "getToken config")
    case None
    show ?thesis
      apply (rule disjI1)
      apply (rule exI [of _ ?req])
      apply (rule exI [of _ "token_calls w"])
      apply (simp add: perform_no_getter [OF None] mergeConfig_def http_constructor
          del: perform.simps)
      done
  next
    case (Some g)
    show ?thesis
    proof (cases "g (token_calls w)")
      case (Inl e)
      with perform_getter_rejects [OF Some Inl] show ?thesis by blast
    next
      case (Inr tok)
      show ?thesis
      proof (cases "tok = None \<or> tok = Some []")
        case True
        with Inr have *: "g (token_calls w) = Inr None \<or> g (token_calls w) = Inr (Some [])"
          by auto
        show ?thesis
          apply (rule disjI1)
          apply (rule exI [of _ ?req])
          apply (rule exI [of _ "Suc (token_calls w)"])
          apply (simp add: perform_getter_no_token [OF Some *] mergeConfig_def http_constructor
              del: perform.simps)
          done
      next
        case False
        then obtain t where t: "tok = Some t" "t \<noteq> []" by auto
        from Inr t have **: "g (token_calls w) = Inr (Some t)" by simp
        show ?thesis
          apply (rule disjI1)
          apply (rule exI [of _ "?req\<lparr>req_headers := [''Content-Type'' \<mapsto> ''application/json'',
                                  ''Authorization'' \<mapsto> ''Bearer '' @ t]\<rparr>"])
          apply (rule exI [of _ "Suc (token_calls w)"])
          apply (simp add: perform_getter_token [OF Some ** t(2)] mergeConfig_def
              http_constructor del: perform.simps)
          done
      qed
    qed
  qed
qed



lemma snd_response_data: "snd (response_data (r, w)) = w"
  by (cases r) (simp_all add: response_data_def)




text \<open>
  C3, as stated, fails: a token-getter that resolves with the empty string, a string
  that is not \<^verbatim>\<open>null\<close>, leaves the request without an \<^verbatim>\<open>Authorization\<close> header
  (\<^verbatim>\<open>if (token)\<close> is false), where \<^verbatim>\<open>my-token\<close> gives \<^verbatim>\<open>Bearer my-token\<close>.
\<close>

theorem empty_token_counterexample:
  "my_token 0 = Inr (Some ''my-token'') \<and> empty_token 0 = Inr (Some []) \<and>
   map authorization
     (sent (snd (get (BaseClient_constructor net_ok (token_config my_token)) ''/test'' None w0)))
     = [Some ''Bearer my-token''] \<and>
   map authorization
     (sent (snd (get (BaseClient_constructor net_ok (token_config empty_token)) ''/test'' None w0)))
     = [None]"
  by (simp add: get_def axios_request_def http_constructor token_config_def my_token_def
      empty_token_def auth_interceptor_def w0_def mergeConfig_def snd_response_data
      authorization_def)

text \<open>
  C3, amended. With a token-getter, every verb operation invokes it once, and the
  outcome of that invocation decides the request: a string that is not empty is sent as
  \<^verbatim>\<open>Authorization: Bearer\<close> followed by the string; \<^verbatim>\<open>null\<close> or the empty string
  give a request without that header; a rejection gives no request.
\<close>

theorem token_header:
  assumes "getToken config = Some g"
  shows "case perform (BaseClient_constructor net config) c w of
     (r, w') \<Rightarrow>
       token_calls w' = Suc (token_calls w) \<and>
       (case g (token_calls w) of
          Inl e \<Rightarrow> sent w' = sent w
        | Inr None \<Rightarrow>
            \<exists>req. sent w' = sent w @ [req] \<and> req_headers req ''Authorization'' = None
        | Inr (Some t) \<Rightarrow>
            \<exists>req. sent w' = sent w @ [req] \<and>
              req_headers req ''Authorization'' =
                (if t \<noteq> [] then Some (''Bearer '' @ t) else None))"
proof (cases "g (token_calls w)")
  case (Inl e)
  then show ?thesis
    by (simp add: perform_getter_rejects [OF assms Inl] split_beta snd_response_data
        del: perform.simps)
next
  case (Inr tok)
  show ?thesis
  proof (cases "tok = None \<or> tok = Some []")
    case True
    with Inr have *: "g (token_calls w) = Inr None \<or> g (token_calls w) = Inr (Some [])"
      by auto
    from True Inr show ?thesis
      by (auto simp add: perform_getter_no_token [OF assms *] split_beta snd_response_data
          mergeConfig_constructor
          simp del: perform.simps)
  next
    case False
    then obtain t where t: "tok = Some t" "t \<noteq> []" by auto
    from Inr t have **: "g (token_calls w) = Inr (Some t)" by simp
    from t ** show ?thesis
      by (simp add: perform_getter_token [OF assms ** t(2)] split_beta snd_response_data
          del: perform.simps)
  qed
qed

theorem token_header_witness:
  "getToken (token_config my_token) = Some my_token \<and>
   token_calls (snd (perform (BaseClient_constructor net_ok (token_config my_token))
      (Get ''/test'' None) w0)) = 1 \<and>
   map authorization (sent (snd (perform (BaseClient_constructor net_ok (token_config my_token))
      (Get ''/test'' None) w0))) = [Some ''Bearer my-token'']"
proof -
  have h: "getToken (token_config my_token) = Some my_token"
    by (simp add: token_config_def)
  show ?thesis
    using h token_header [OF h, where net = net_ok and c = "Get ''/test'' None" and w = w0]
    by (auto simp add: split_beta my_token_def w0_def authorization_def simp del: perform.simps)
qed

text \<open>
  C8, as stated, fails: \<^verbatim>\<open>markAsRead('')\<close> is given an id and sends its request to
  \<^verbatim>\<open>/notifications/read\<close> (\<^verbatim>\<open>if (id)\<close> is false for the empty string).
\<close>

theorem markAsRead_empty_id_counterexample:
  "map req_url
     (sent (snd (markAsRead (BaseClient_constructor net_ok no_getter_config) (Some []) w0)))
   = [''/notifications/read'']"
  by (simp add: markAsRead_def patch_def axios_request_def http_constructor no_getter_config_def
      w0_def mergeConfig_def snd_response_data)

text \<open>
  C8, amended. \<^verbatim>\<open>markAsRead\<close> is the PATCH operation, without body or options, on
  \<^verbatim>\<open>/notifications/{id}/read\<close> for an id that is not empty, and on
  \<^verbatim>\<open>/notifications/read\<close> for the empty id and for no id; a request it hands to the
  adapter is a PATCH to that path.
\<close>

theorem markAsRead_routing:
  "markAsRead (BaseClient_constructor net config) id' w =
     patch (BaseClient_constructor net config)
       (case id' of
          None \<Rightarrow> ''/notifications/read''
        | Some i \<Rightarrow> if i \<noteq> [] then ''/notifications/'' @ i @ ''/read''
                    else ''/notifications/read'')
       JUndefined None w \<and>
   (case markAsRead (BaseClient_constructor net config) id' w of
      (r, w') \<Rightarrow>
        sent w' = sent w \<or>
        (\<exists>req. sent w' = sent w @ [req] \<and> req_method req = PATCH \<and>
           req_data req = JUndefined \<and>
           req_url req =
             (case id' of
                None \<Rightarrow> ''/notifications/read''
              | Some i \<Rightarrow> if i \<noteq> [] then ''/notifications/'' @ i @ ''/read''
                          else ''/notifications/read'')))"
proof -
  let ?url = "case id' of
                None \<Rightarrow> ''/notifications/read''
              | Some i \<Rightarrow> if i \<noteq> [] then ''/notifications/'' @ i @ ''/read''
                          else ''/notifications/read''"
  have eq: "markAsRead (BaseClient_constructor net config) id' w =
      perform (BaseClient_constructor net config) (Patch ?url JUndefined None) w"
    by (simp add: markAsRead_def split: option.splits)
  from perform_trace [of net config "Patch ?url JUndefined None" w] eq show ?thesis
    by (auto simp add: split_beta snd_response_data)
qed

theorem markAsRead_routing_witness:
  "map req_url
     (sent (snd (markAsRead (BaseClient_constructor net_ok no_getter_config)
        (Some ''notif-1'') w0))) = [''/notifications/notif-1/read''] \<and>
   map req_url
     (sent (snd (markAsRead (BaseClient_constructor net_ok no_getter_config) None w0)))
     = [''/notifications/read'']"
  using markAsRead_routing [of net_ok no_getter_config "Some ''notif-1''" w0]
    markAsRead_routing [of net_ok no_getter_config None w0]
  by (simp add: patch_def axios_request_def http_constructor no_getter_config_def
      w0_def mergeConfig_def snd_response_data)







end
